theory Spec2Isabelle
  imports Complex_Main "HOL-Library.Multiset" "HOL-Library.Log_Nat"
begin

section \<open>Resale dashboard: loader, feature derivation, scoring and ranking\<close>

text \<open>
  A shallow embedding of \<^verbatim>\<open>streamlit_app.py\<close>. The script is one module-level pipeline over a
  pandas DataFrame; each stage is modelled as a function on a list of rows (one record per
  DataFrame row, in row order). Columns that are only carried along (town, flat type, flat
  model, street name, lease commencement date) are left out; \<open>block\<close> stays as the column that
  tells two transactions apart.

  Numbers. The integer columns are Python/int64 integers, modelled as \<open>int\<close>. A float is an
  \<open>fl\<close>: a real number, an infinity or NaN. A division by zero gives an infinity or NaN (pandas
  and numpy do not raise), the median and the minimum of an empty column are NaN, every
  comparison with NaN is false, and \<^verbatim>\<open>int(NaN)\<close> raises. The columns read from the file
  (floor area, price) are taken to hold numbers; \<open>price_per_sqm\<close>, which the loader computes, is
  an \<open>fl\<close> everywhere. The arithmetic of the score is exact; the price formatter, whose output
  depends on the last bit of a quotient, rounds its division to the nearest double.
\<close>

subsection \<open>Doubles\<close>

datatype fl = Fin real | PInf | NInf | NaN

fun fl_neg :: "fl \<Rightarrow> fl" where
  "fl_neg (Fin x) = Fin (- x)"
| "fl_neg PInf = NInf"
| "fl_neg NInf = PInf"
| "fl_neg NaN = NaN"

fun fl_add :: "fl \<Rightarrow> fl \<Rightarrow> fl" where
  "fl_add (Fin x) (Fin y) = Fin (x + y)"
| "fl_add NaN _ = NaN"
| "fl_add _ NaN = NaN"
| "fl_add PInf NInf = NaN"
| "fl_add NInf PInf = NaN"
| "fl_add PInf _ = PInf"
| "fl_add _ PInf = PInf"
| "fl_add NInf _ = NInf"
| "fl_add _ NInf = NInf"

definition fl_sub :: "fl \<Rightarrow> fl \<Rightarrow> fl" where
  "fl_sub a b = fl_add a (fl_neg b)"

text \<open>The sign of a double that is not NaN: \<open>-1\<close>, \<open>0\<close> or \<open>1\<close> (signed zeros are not told apart).\<close>

fun fl_sign :: "fl \<Rightarrow> int" where
  "fl_sign (Fin x) = (if x < 0 then - 1 else if x = 0 then 0 else 1)"
| "fl_sign PInf = 1"
| "fl_sign NInf = - 1"
| "fl_sign NaN = 0"

definition fl_of_sign :: "int \<Rightarrow> fl" where
  "fl_of_sign s = (if s = 0 then NaN else if 0 < s then PInf else NInf)"

fun fl_mul :: "fl \<Rightarrow> fl \<Rightarrow> fl" where
  "fl_mul (Fin x) (Fin y) = Fin (x * y)"
| "fl_mul NaN _ = NaN"
| "fl_mul _ NaN = NaN"
| "fl_mul a b = fl_of_sign (fl_sign a * fl_sign b)"

text \<open>
  Division as numpy does it on float64: a nonzero number over zero is an infinity, zero over
  zero is NaN, and nothing is raised.
\<close>

fun fl_div :: "fl \<Rightarrow> fl \<Rightarrow> fl" where
  "fl_div (Fin x) (Fin y) = (if y \<noteq> 0 then Fin (x / y) else fl_of_sign (fl_sign (Fin x)))"
| "fl_div NaN _ = NaN"
| "fl_div _ NaN = NaN"
| "fl_div (Fin x) _ = Fin 0"
| "fl_div a (Fin y) = fl_of_sign (fl_sign a * (if y < 0 then - 1 else 1))"
| "fl_div _ _ = NaN"

fun fl_less :: "fl \<Rightarrow> fl \<Rightarrow> bool" where
  "fl_less (Fin x) (Fin y) = (x < y)"
| "fl_less NaN _ = False"
| "fl_less _ NaN = False"
| "fl_less NInf NInf = False"
| "fl_less NInf _ = True"
| "fl_less _ NInf = False"
| "fl_less PInf _ = False"
| "fl_less _ PInf = True"

text \<open>
  Python's builtin \<^verbatim>\<open>min(a, b)\<close> and \<^verbatim>\<open>max(a, b)\<close> on two arguments: the first argument is
  kept unless the second is strictly smaller (larger). With a NaN first argument the
  comparison is false and NaN is returned.
\<close>

text \<open>Python's \<^verbatim>\<open><=\<close> on floats (false when either side is NaN).\<close>

definition fl_le :: "fl \<Rightarrow> fl \<Rightarrow> bool" where
  "fl_le a b = (a \<noteq> NaN \<and> b \<noteq> NaN \<and> \<not> fl_less b a)"

definition py_min :: "fl \<Rightarrow> fl \<Rightarrow> fl" where
  "py_min a b = (if fl_less b a then b else a)"

definition py_max :: "fl \<Rightarrow> fl \<Rightarrow> fl" where
  "py_max a b = (if fl_less a b then b else a)"

subsection \<open>Rows\<close>

text \<open>
  One record per DataFrame row. The type of two columns changes along the pipeline, so they
  are type parameters: \<open>resale_price\<close> is a float column until line 224 overwrites it with the
  formatted strings, and \<open>price_per_sqm\<close> is the quotient computed by the loader, an \<open>fl\<close> from
  there on.
\<close>

type_synonym date = "nat \<times> nat \<times> nat"

record ('r, 'p) row =
  month :: date
  block :: string
  storey_floor :: int
  floor_area_sqm :: real
  remaining_lease_years :: int
  resale_price :: 'r
  price_per_sqm :: 'p

record ('r, 'p) scored_row = "('r, 'p) row" +
  potential_score :: fl
  why_recommended :: string

subsection \<open>Loader (lines 10-17)\<close>

text \<open>
  A row of the CSV file as \<^verbatim>\<open>read_csv\<close> delivers it: the two numeric columns the loader
  divides, and the three string columns it parses.
\<close>

record raw_row =
  raw_month :: string
  raw_block :: string
  raw_storey_range :: string
  raw_floor_area_sqm :: real
  raw_remaining_lease :: string
  raw_resale_price :: real

datatype py_error = DateParseError | ValueError | OverflowError

definition is_digit :: "char \<Rightarrow> bool" where
  "is_digit c = (c \<in> set ''0123456789'')"

text \<open>
  \<^verbatim>\<open>.str.extract(r'(\d+)')\<close>: the first maximal run of digits of the string, NaN (here \<open>None\<close>)
  when the string has no digit.
\<close>

definition str_extract_digits :: "string \<Rightarrow> string option" where
  "str_extract_digits s =
     (let t = takeWhile is_digit (dropWhile (\<lambda>c. \<not> is_digit c) s)
      in if t = [] then None else Some t)"

definition int_of_digits :: "string \<Rightarrow> int" where
  "int_of_digits t = foldl (\<lambda>a c. 10 * a + (of_char c - 48)) 0 t"

text \<open>
  \<^verbatim>\<open>.astype(int)\<close> on the extracted column: a NaN anywhere in the column cannot be cast
  (ValueError), whichever cell it is in; otherwise every cell is converted, and a number that
  does not fit int64 overflows.
\<close>

definition astype_int :: "string option list \<Rightarrow> py_error + int list" where
  "astype_int cells =
     (if list_ex (\<lambda>c. c = None) cells then Inl ValueError
      else let ns = map (\<lambda>c. case c of None \<Rightarrow> 0 | Some t \<Rightarrow> int_of_digits t) cells
           in if list_ex (\<lambda>n. 2 ^ 63 \<le> n) ns then Inl OverflowError else Inr ns)"

text \<open>A column operation that raises at the first cell it cannot convert.\<close>

fun convert_column :: "('a \<Rightarrow> py_error + 'b) \<Rightarrow> 'a list \<Rightarrow> py_error + 'b list" where
  "convert_column f [] = Inr []"
| "convert_column f (x # xs) =
     (case f x of
        Inl e \<Rightarrow> Inl e
      | Inr y \<Rightarrow> (case convert_column f xs of Inl e \<Rightarrow> Inl e | Inr ys \<Rightarrow> Inr (y # ys)))"

text \<open>
  \<^verbatim>\<open>load_data()\<close>. \<^verbatim>\<open>pd.to_datetime\<close> is a parameter (\<open>None\<close> where it raises). The four
  assignments run in the source's order, each over the whole column; the last one divides
  the two float columns cell by cell and checks nothing. Characters are bytes here, so the
  digits that \<^verbatim>\<open>\d\<close> finds are the ASCII digits.
\<close>

definition load_data ::
  "(string \<Rightarrow> date option) \<Rightarrow> raw_row list \<Rightarrow> py_error + (real, fl) row list" where
  "load_data to_datetime df =
     (case convert_column
             (\<lambda>r. case to_datetime (raw_month r) of None \<Rightarrow> Inl DateParseError | Some d \<Rightarrow> Inr d) df of
        Inl e \<Rightarrow> Inl e
      | Inr months \<Rightarrow>
     (case astype_int (map (\<lambda>r. str_extract_digits (raw_remaining_lease r)) df) of
        Inl e \<Rightarrow> Inl e
      | Inr leases \<Rightarrow>
     (case astype_int (map (\<lambda>r. str_extract_digits (raw_storey_range r)) df) of
        Inl e \<Rightarrow> Inl e
      | Inr storeys \<Rightarrow>
          Inr (map (\<lambda>(r, m, l, s).
                 \<lparr>month = m, block = raw_block r, storey_floor = s,
                  floor_area_sqm = raw_floor_area_sqm r, remaining_lease_years = l,
                  resale_price = raw_resale_price r,
                  price_per_sqm = fl_div (Fin (raw_resale_price r)) (Fin (raw_floor_area_sqm r))\<rparr>)
               (zip df (zip months (zip leases storeys)))))))"

subsection \<open>Price formatting (lines 24-28)\<close>

text \<open>
  The quotients \<^verbatim>\<open>value/1_000_000\<close> and \<^verbatim>\<open>value/1000\<close> are doubles: the exact quotient
  rounded to the nearest number with a 53-bit significand, a tie going to the even
  significand. \<open>ilog2 x\<close> is the binary exponent of a positive \<open>x\<close> (the floor of its logarithm
  to base 2), \<open>ulp_exponent x\<close> the exponent of the last bit of the doubles around \<open>x\<close> (never
  below that of the subnormal numbers), and \<open>to_float64 x\<close> the double nearest to \<open>x\<close>. The
  quotients of the formatter never reach the overflow threshold, which is left out.
\<close>

definition round_half_even :: "real \<Rightarrow> int" where
  "round_half_even x =
     (let f = \<lfloor>x\<rfloor>; d = x - of_int f in
      if d < 1 / 2 then f else if 1 / 2 < d then f + 1 else if even f then f else f + 1)"

definition ilog2 :: "real \<Rightarrow> int" where
  "ilog2 x = (if 1 \<le> x then bitlen \<lfloor>x\<rfloor> - 1 else - bitlen (\<lceil>1 / x\<rceil> - 1))"

definition ulp_exponent :: "real \<Rightarrow> int" where
  "ulp_exponent x = max (ilog2 \<bar>x\<bar> - 52) (- 1074)"

definition to_float64 :: "real \<Rightarrow> real" where
  "to_float64 x =
     (if x = 0 then 0
      else of_int (round_half_even (x / 2 powi ulp_exponent x)) * 2 powi ulp_exponent x)"

text \<open>
  The format specs \<^verbatim>\<open>.2f\<close> and \<^verbatim>\<open>.0f\<close> round the exact value of the double to the given
  count of decimals, a tie going to the even last digit, and print the sign, the integer part
  and (for a positive count) a point and exactly that many digits.
\<close>

definition digit_char :: "nat \<Rightarrow> char" where
  "digit_char d = ''0123456789'' ! d"

fun show_nat :: "nat \<Rightarrow> string" where
  "show_nat n = (if n < 10 then [digit_char n] else show_nat (n div 10) @ [digit_char (n mod 10)])"

declare show_nat.simps [simp del]

fun frac_digits :: "nat \<Rightarrow> nat \<Rightarrow> string" where
  "frac_digits 0 m = []"
| "frac_digits (Suc p) m = frac_digits p (m div 10) @ [digit_char (m mod 10)]"

definition format_f :: "nat \<Rightarrow> real \<Rightarrow> string" where
  "format_f p x =
     (let n = nat (round_half_even (\<bar>x\<bar> * 10 ^ p)) in
      (if x < 0 then ''-'' else []) @ show_nat (n div 10 ^ p) @
      (if p = 0 then [] else ''.'' @ frac_digits p (n mod 10 ^ p)))"

definition format_price :: "real \<Rightarrow> string" where
  "format_price v =
     (if v \<ge> 1000000 then ''$'' @ format_f 2 (to_float64 (v / 1000000)) @ ''M''
      else ''$'' @ format_f 0 (to_float64 (v / 1000)) @ ''k'')"

subsection \<open>Floor category and lease bucket (lines 103-108)\<close>

text \<open>
  \<^verbatim>\<open>pd.cut(x, bins)\<close> with its defaults \<^verbatim>\<open>right=True, include_lowest=False\<close>: the value
  falls into bin \<open>i\<close> when \<open>bins[i] < x \<le> bins[i+1]\<close>, and into no bin (NaN, here \<open>None\<close>)
  when it is not above the first edge or is above the last one.
\<close>

fun cut :: "'a::linorder list \<Rightarrow> 'a \<Rightarrow> nat option" where
  "cut (l # r # bins) x =
     (if l < x \<and> x \<le> r then Some 0 else map_option Suc (cut (r # bins) x))"
| "cut bins x = None"

definition floor_category :: "int \<Rightarrow> string option" where
  "floor_category s =
     map_option (\<lambda>i. [''Low (<10)'', ''Mid (10-20)'', ''High (>20)''] ! i) (cut [- 1, 9, 20, 100] s)"

definition lease_bucket :: "int \<Rightarrow> string" where
  "lease_bucket x =
     (if x \<ge> 81 then ''81-99 yrs'' else if x \<ge> 61 then ''61-80 yrs'' else ''0-60 yrs'')"

subsection \<open>Floor-area bins (lines 147-148)\<close>

text \<open>\<^verbatim>\<open>Series.min()\<close> and \<^verbatim>\<open>Series.max()\<close>: NaN on an empty column.\<close>

definition series_min :: "real list \<Rightarrow> fl" where
  "series_min xs = (if xs = [] then NaN else Fin (Min (set xs)))"

definition series_max :: "real list \<Rightarrow> fl" where
  "series_max xs = (if xs = [] then NaN else Fin (Max (set xs)))"

text \<open>\<^verbatim>\<open>int(x)\<close> on a float: truncation towards zero; NaN and the infinities raise.\<close>

fun py_int :: "fl \<Rightarrow> py_error + int" where
  "py_int (Fin x) = Inr (if 0 \<le> x then \<lfloor>x\<rfloor> else \<lceil>x\<rceil>)"
| "py_int NaN = Inl ValueError"
| "py_int PInf = Inl OverflowError"
| "py_int NInf = Inl OverflowError"

text \<open>\<^verbatim>\<open>range(start, stop, step)\<close> for a positive step, by the length Python computes.\<close>

definition py_range :: "int \<Rightarrow> int \<Rightarrow> int \<Rightarrow> int list" where
  "py_range start stop step =
     map (\<lambda>k. start + step * int k) [0 ..< nat ((stop - start + step - 1) div step)]"

definition floor_bins :: "('r, 'p) row list \<Rightarrow> py_error + int list" where
  "floor_bins filtered =
     (case py_int (series_min (map floor_area_sqm filtered)) of
        Inl e \<Rightarrow> Inl e
      | Inr lo \<Rightarrow>
          (case py_int (series_max (map floor_area_sqm filtered)) of
             Inl e \<Rightarrow> Inl e
           | Inr hi \<Rightarrow> Inr (py_range lo (hi + 10) 10)))"

text \<open>The interval \<open>(l, r]\<close> a floor area is put into, as the pair of its edges.\<close>

definition floor_bin :: "int list \<Rightarrow> real \<Rightarrow> (int \<times> int) option" where
  "floor_bin bins x = map_option (\<lambda>i. (bins ! i, bins ! Suc i)) (cut (map real_of_int bins) x)"

definition floor_bin_column :: "('r, 'p) row list \<Rightarrow> py_error + (int \<times> int) option list" where
  "floor_bin_column filtered =
     (case floor_bins filtered of
        Inl e \<Rightarrow> Inl e
      | Inr bins \<Rightarrow> Inr (map (\<lambda>r. floor_bin bins (floor_area_sqm r)) filtered))"

subsection \<open>Scoring (lines 198-220)\<close>

text \<open>
  \<^verbatim>\<open>Series.median()\<close>: NaN cells are skipped; the result is the middle value of the sorted
  rest, the mean of the two middle values for an even count, NaN when nothing is left.
  \<open>fl_sort\<close> sorts a list without NaN, the infinities at the ends.
\<close>

fun fl_insort :: "fl \<Rightarrow> fl list \<Rightarrow> fl list" where
  "fl_insort x [] = [x]"
| "fl_insort x (y # ys) = (if fl_less y x then y # fl_insort x ys else x # y # ys)"

definition fl_sort :: "fl list \<Rightarrow> fl list" where
  "fl_sort xs = foldr fl_insort xs []"

definition median :: "fl list \<Rightarrow> fl" where
  "median xs =
     (let s = fl_sort (filter (\<lambda>x. x \<noteq> NaN) xs); n = length s in
      if n = 0 then NaN
      else if odd n then s ! (n div 2)
      else fl_div (fl_add (s ! (n div 2 - 1)) (s ! (n div 2))) (Fin 2))"

definition median_psqm :: "(real, fl) row list \<Rightarrow> fl" where
  "median_psqm filtered = median (map price_per_sqm filtered)"

definition median_floor_area :: "(real, fl) row list \<Rightarrow> fl" where
  "median_floor_area filtered = median (map (\<lambda>r. Fin (floor_area_sqm r)) filtered)"

text \<open>
  \<^verbatim>\<open>calculate_value_score(row)\<close> reads the globals \<^verbatim>\<open>filtered\<close> and \<^verbatim>\<open>median_psqm\<close>; the
  model takes the table as an argument. \<open>score1\<close> to \<open>score4\<close> are the values of the local
  \<^verbatim>\<open>score\<close> after each of the four \<^verbatim>\<open>if\<close> statements.
\<close>

definition calculate_value_score :: "(real, fl) row list \<Rightarrow> (real, fl) row \<Rightarrow> fl" where
  "calculate_value_score filtered r =
     (let score0 = Fin 50;
          score1 = (if storey_floor r > 20 then fl_add score0 (Fin 5)
                    else if storey_floor r \<ge> 10 then fl_add score0 (Fin 3)
                    else score0);
          score2 = (if fl_less (median_floor_area filtered) (Fin (floor_area_sqm r))
                    then fl_add score1 (Fin 5) else score1);
          score3 = (if fl_less (price_per_sqm r) (median_psqm filtered)
                    then fl_add score2 (Fin 15)
                    else fl_sub score2
                           (fl_mul (Fin 15)
                              (fl_div (fl_sub (price_per_sqm r) (median_psqm filtered))
                                 (median_psqm filtered))));
          score4 = (if remaining_lease_years r < 60 then fl_sub score3 (Fin 25)
                    else if remaining_lease_years r < 80 then fl_sub score3 (Fin 10)
                    else score3)
      in py_max (py_min score4 (Fin 100)) (Fin 0))"

text \<open>\<^verbatim>\<open>sep.join(parts)\<close>.\<close>

fun join :: "string \<Rightarrow> string list \<Rightarrow> string" where
  "join sep [] = []"
| "join sep [x] = x"
| "join sep (x # y # ys) = x @ sep @ join sep (y # ys)"

definition explain_score :: "(real, fl) row list \<Rightarrow> (real, fl) row \<Rightarrow> string" where
  "explain_score filtered r =
     (let reasons0 = [];
          reasons1 = (if storey_floor r > 20 then reasons0 @ [''High floor'']
                      else if storey_floor r \<ge> 10 then reasons0 @ [''Mid floor'']
                      else reasons0);
          reasons2 = (if fl_less (median_floor_area filtered) (Fin (floor_area_sqm r))
                      then reasons1 @ [''Spacious''] else reasons1);
          reasons3 = (if remaining_lease_years r < 60 then reasons2 @ [''Low remaining lease'']
                      else reasons2);
          reasons4 = (if fl_less (price_per_sqm r) (median_psqm filtered)
                      then reasons3 @ [''Good value $/sqm''] else reasons3)
      in join '', '' reasons4)"

text \<open>Lines 219-220: the two \<^verbatim>\<open>apply(..., axis=1)\<close> calls add the two columns row by row.\<close>

definition score_row :: "(real, fl) row list \<Rightarrow> (real, fl) row \<Rightarrow> (real, fl) scored_row" where
  "score_row filtered r =
     row.extend r
       (scored_row.fields (calculate_value_score filtered r) (explain_score filtered r))"

definition score_table :: "(real, fl) row list \<Rightarrow> (real, fl) scored_row list" where
  "score_table filtered = map (score_row filtered) filtered"

subsection \<open>Ranking and display (lines 223-224)\<close>

text \<open>
  \<^verbatim>\<open>sort_values("Potential Score", ascending=False)\<close> is called without \<^verbatim>\<open>kind\<close>, so pandas
  sorts the column with its default \<^verbatim>\<open>quicksort\<close>, which the library documents as not
  stable. What the call guarantees is modelled as a relation between the table and the
  result: the result holds the same rows, the scores fall along it, and rows whose score is
  NaN come last. The order of rows with equal scores is left open: the relation serves
  statements about every result the call may give, and names none as the one it gives.
\<close>

definition desc_order :: "fl \<Rightarrow> fl \<Rightarrow> bool" where
  "desc_order x y = (y = NaN \<or> (x \<noteq> NaN \<and> \<not> fl_less x y))"

definition sort_values_desc ::
  "('r, 'p) scored_row list \<Rightarrow> ('r, 'p) scored_row list \<Rightarrow> bool" where
  "sort_values_desc tbl out =
     (mset out = mset tbl \<and>
      sorted_wrt (\<lambda>a b. desc_order (potential_score a) (potential_score b)) out)"

text \<open>\<^verbatim>\<open>.head(n)\<close> for \<open>n \<ge> 0\<close>.\<close>

definition head :: "nat \<Rightarrow> 'a list \<Rightarrow> 'a list" where
  "head n rows = take n rows"

text \<open>Line 224 overwrites the price column of the selected rows with the formatted strings.\<close>

definition format_row :: "(real, 'p) scored_row \<Rightarrow> (string, 'p) scored_row" where
  "format_row r =
     \<lparr>month = month r, block = block r, storey_floor = storey_floor r,
      floor_area_sqm = floor_area_sqm r, remaining_lease_years = remaining_lease_years r,
      resale_price = format_price (resale_price r), price_per_sqm = price_per_sqm r,
      potential_score = potential_score r, why_recommended = why_recommended r\<rparr>"

text \<open>\<open>top20 s\<close> is the table \<^verbatim>\<open>top20\<close> after line 224, for a result \<open>s\<close> of the sort.\<close>

definition top20 :: "(real, 'p) scored_row list \<Rightarrow> (string, 'p) scored_row list" where
  "top20 s = map format_row (head 20 s)"

subsection \<open>The score as the specification words it\<close>

text \<open>
  The specification describes the score as a base of 50, four adjustments, and a final clamp.
  The following definitions follow that wording (they are not taken from the source) and are
  compared with \<open>calculate_value_score\<close> below.
\<close>

definition spec_floor_bonus :: "(real, fl) row \<Rightarrow> real" where
  "spec_floor_bonus r = (if storey_floor r > 20 then 5 else if storey_floor r \<ge> 10 then 3 else 0)"

definition spec_area_bonus :: "(real, fl) row list \<Rightarrow> (real, fl) row \<Rightarrow> real" where
  "spec_area_bonus filtered r =
     (if fl_less (median_floor_area filtered) (Fin (floor_area_sqm r)) then 5 else 0)"

definition spec_value_adjustment :: "(real, fl) row list \<Rightarrow> (real, fl) row \<Rightarrow> fl" where
  "spec_value_adjustment filtered r =
     (if fl_less (price_per_sqm r) (median_psqm filtered) then Fin 15
      else fl_neg (fl_div (fl_mul (Fin 15) (fl_sub (price_per_sqm r) (median_psqm filtered)))
                     (median_psqm filtered)))"

definition spec_lease_penalty :: "(real, fl) row \<Rightarrow> real" where
  "spec_lease_penalty r =
     (if remaining_lease_years r < 60 then - 25
      else if remaining_lease_years r < 80 then - 10 else 0)"

fun spec_clamp :: "real \<Rightarrow> real \<Rightarrow> fl \<Rightarrow> fl" where
  "spec_clamp lo hi (Fin x) = Fin (max lo (min hi x))"
| "spec_clamp lo hi PInf = Fin hi"
| "spec_clamp lo hi NInf = Fin lo"
| "spec_clamp lo hi NaN = NaN"

definition spec_score :: "(real, fl) row list \<Rightarrow> (real, fl) row \<Rightarrow> fl" where
  "spec_score filtered r =
     spec_clamp 0 100
       (fl_add (Fin (50 + spec_floor_bonus r + spec_area_bonus filtered r))
          (fl_add (spec_value_adjustment filtered r) (Fin (spec_lease_penalty r))))"

subsection \<open>Stable ranking as the specification words it\<close>

text \<open>
  A stable descending sort, as the specification asks for it: each row is put in front of the
  first later row that may follow it, so rows of equal score keep their order (and rows with
  a NaN score end up last, in their order).
\<close>

fun spec_insert_desc ::
  "('r, 'p) scored_row \<Rightarrow> ('r, 'p) scored_row list \<Rightarrow> ('r, 'p) scored_row list" where
  "spec_insert_desc r [] = [r]"
| "spec_insert_desc r (x # xs) =
     (if desc_order (potential_score r) (potential_score x) then r # x # xs
      else x # spec_insert_desc r xs)"

definition spec_stable_sort_desc :: "('r, 'p) scored_row list \<Rightarrow> ('r, 'p) scored_row list" where
  "spec_stable_sort_desc tbl = foldr spec_insert_desc tbl []"

subsection \<open>Example tables\<close>

text \<open>The two rows of the specification's end-to-end scenario.\<close>

definition scenario_A :: "(real, fl) row" where
  "scenario_A =
     \<lparr>month = (2024, 1, 1), block = ''A'', storey_floor = 25, floor_area_sqm = 120,
      remaining_lease_years = 90, resale_price = 480000, price_per_sqm = Fin 4000\<rparr>"

definition scenario_B :: "(real, fl) row" where
  "scenario_B =
     \<lparr>month = (2024, 1, 1), block = ''B'', storey_floor = 5, floor_area_sqm = 60,
      remaining_lease_years = 55, resale_price = 360000, price_per_sqm = Fin 6000\<rparr>"

text \<open>A transaction recorded with a price of zero.\<close>

definition zero_price_row :: "(real, fl) row" where
  "zero_price_row =
     \<lparr>month = (2024, 1, 1), block = ''10'', storey_floor = 4, floor_area_sqm = 90,
      remaining_lease_years = 85, resale_price = 0, price_per_sqm = Fin 0\<rparr>"

text \<open>Two transactions recorded with negative prices.\<close>

definition refund_row_1 :: "(real, fl) row" where
  "refund_row_1 =
     \<lparr>month = (2024, 1, 1), block = ''11'', storey_floor = 4, floor_area_sqm = 100,
      remaining_lease_years = 70, resale_price = - 100000, price_per_sqm = Fin (- 1000)\<rparr>"

definition refund_row_2 :: "(real, fl) row" where
  "refund_row_2 =
     \<lparr>month = (2024, 1, 1), block = ''12'', storey_floor = 4, floor_area_sqm = 100,
      remaining_lease_years = 70, resale_price = - 300000, price_per_sqm = Fin (- 3000)\<rparr>"

text \<open>Two transactions with floor areas of 60 and 75 square metres.\<close>

definition area_60 :: "(real, fl) row" where
  "area_60 =
     \<lparr>month = (2024, 1, 1), block = ''201'', storey_floor = 7, floor_area_sqm = 60,
      remaining_lease_years = 85, resale_price = 300000, price_per_sqm = Fin 5000\<rparr>"

definition area_75 :: "(real, fl) row" where
  "area_75 =
     \<lparr>month = (2024, 1, 1), block = ''202'', storey_floor = 7, floor_area_sqm = 75,
      remaining_lease_years = 85, resale_price = 375000, price_per_sqm = Fin 5000\<rparr>"

text \<open>A transaction with a floor area of 80.5 square metres.\<close>

definition area_80_5 :: "(real, fl) row" where
  "area_80_5 =
     \<lparr>month = (2024, 1, 1), block = ''203'', storey_floor = 7, floor_area_sqm = 161 / 2,
      remaining_lease_years = 85, resale_price = 402500, price_per_sqm = Fin 5000\<rparr>"

text \<open>
  A low-floor transaction with 70 years of lease left, priced at 6000 per sqm. Together with
  row A of the scenario the median price per sqm is 5000 and the median floor area is 110.
\<close>

definition quiet_row :: "(real, fl) row" where
  "quiet_row =
     \<lparr>month = (2024, 1, 1), block = ''401'', storey_floor = 4, floor_area_sqm = 100,
      remaining_lease_years = 70, resale_price = 600000, price_per_sqm = Fin 6000\<rparr>"

text \<open>
  A line of the CSV file whose floor area is zero, a date parser that accepts it, and the row
  the loader makes of it.
\<close>

definition zero_area_raw :: raw_row where
  "zero_area_raw =
     \<lparr>raw_month = ''2017-01'', raw_block = ''301'', raw_storey_range = ''10 TO 12'',
      raw_floor_area_sqm = 0, raw_remaining_lease = ''61 years 04 months'',
      raw_resale_price = 300000\<rparr>"

definition january_2017 :: "string \<Rightarrow> date option" where
  "january_2017 s = (if s = ''2017-01'' then Some (2017, 1, 1) else None)"

definition zero_area_row :: "(real, fl) row" where
  "zero_area_row =
     \<lparr>month = (2017, 1, 1), block = ''301'', storey_floor = 10, floor_area_sqm = 0,
      remaining_lease_years = 61, resale_price = 300000, price_per_sqm = PInf\<rparr>"

text \<open>A low-floor transaction with 70 years of lease left whose recorded floor area is zero.\<close>

definition zero_area_quiet_row :: "(real, fl) row" where
  "zero_area_quiet_row =
     \<lparr>month = (2024, 1, 1), block = ''402'', storey_floor = 4, floor_area_sqm = 0,
      remaining_lease_years = 70, resale_price = 300000, price_per_sqm = PInf\<rparr>"

section \<open>Properties\<close>

subsection \<open>Lease bucket\<close>

text \<open>
  C5. For every number of remaining lease years from 0 on, \<open>lease_bucket\<close> gives exactly one of
  the three labels: \<open>0-60 yrs\<close> up to 60, \<open>61-80 yrs\<close> from 61 to 80, \<open>81-99 yrs\<close> from 81 on
  (the highest threshold is tested first). The boundary values 60, 61, 80 and 81 fall into
  \<open>0-60 yrs\<close>, \<open>61-80 yrs\<close>, \<open>61-80 yrs\<close> and \<open>81-99 yrs\<close>.
\<close>

theorem lease_bucket_partition:
  "0 \<le> x \<Longrightarrow>
     lease_bucket x \<in> {''0-60 yrs'', ''61-80 yrs'', ''81-99 yrs''} \<and>
     (lease_bucket x = ''0-60 yrs'') = (x \<le> 60) \<and>
     (lease_bucket x = ''61-80 yrs'') = (61 \<le> x \<and> x \<le> 80) \<and>
     (lease_bucket x = ''81-99 yrs'') = (81 \<le> x) \<and>
     lease_bucket 60 = ''0-60 yrs'' \<and> lease_bucket 61 = ''61-80 yrs'' \<and>
     lease_bucket 80 = ''61-80 yrs'' \<and> lease_bucket 81 = ''81-99 yrs''"
  by (simp add: lease_bucket_def)

theorem lease_bucket_partition_witness:
  "(0::int) \<le> 70 \<and> lease_bucket 70 = ''61-80 yrs'' \<and> lease_bucket 70 \<noteq> ''0-60 yrs'' \<and>
   lease_bucket 70 \<noteq> ''81-99 yrs''"
  using lease_bucket_partition [of 70] by simp

subsection \<open>Score\<close>

lemma py_clamp_spec: "py_max (py_min x (Fin 100)) (Fin 0) = spec_clamp 0 100 x"
  by (cases x) (simp_all add: py_max_def py_min_def max_def min_def)

lemma py_clamp_Fin: "py_max (py_min (Fin x) (Fin 100)) (Fin 0) = Fin (max 0 (min 100 x))"
  by (simp add: py_clamp_spec)

text \<open>The source's score is the score as the specification words it, on every table and row.\<close>

lemma score_refines: "calculate_value_score filtered r = spec_score filtered r"
proof -
  obtain m where m: "median_psqm filtered = m" by simp
  obtain p where p: "price_per_sqm r = p" by simp
  show ?thesis
    unfolding calculate_value_score_def spec_score_def Let_def py_clamp_spec
      spec_floor_bonus_def spec_area_bonus_def spec_value_adjustment_def spec_lease_penalty_def
      m p
    by (cases m; cases p) (auto simp: fl_sub_def fl_of_sign_def)
qed

text \<open>The clamp bounds every score that is a number; it lets NaN through.\<close>

lemma spec_clamp_range:
  "spec_clamp 0 100 x = NaN \<or> (\<exists>s. spec_clamp 0 100 x = Fin s \<and> 0 \<le> s \<and> s \<le> 100)"
  by (cases x) simp_all

lemma score_clamped:
  "calculate_value_score filtered r = NaN \<or>
   (\<exists>s. calculate_value_score filtered r = Fin s \<and> 0 \<le> s \<and> s \<le> 100)"
  unfolding score_refines spec_score_def by (rule spec_clamp_range)

lemma median_single: "x \<noteq> NaN \<Longrightarrow> median [x] = x"
  by (simp add: median_def fl_sort_def)

lemma load_zero_area: "load_data january_2017 [zero_area_raw] = Inr [zero_area_row]"
  by (simp add: load_data_def zero_area_raw_def zero_area_row_def january_2017_def astype_int_def
        str_extract_digits_def is_digit_def int_of_digits_def fl_of_sign_def)

text \<open>
  C2. The score is not always between 0 and 100. On a table whose only row has a price of
  zero, the median price per sqm is zero, the value adjustment divides zero by zero, and the
  NaN passes through \<^verbatim>\<open>min\<close> and \<^verbatim>\<open>max\<close>. The same happens to the row the loader makes of a
  source line with floor area zero: its price per sqm and the median are infinite, and their
  difference is NaN.
\<close>

theorem nan_escapes_clamp:
  "median_psqm [zero_price_row] = Fin 0 \<and>
   calculate_value_score [zero_price_row] zero_price_row = NaN \<and>
   load_data january_2017 [zero_area_raw] = Inr [zero_area_row] \<and>
   median_psqm [zero_area_row] = PInf \<and>
   calculate_value_score [zero_area_row] zero_area_row = NaN"
  by (simp add: load_zero_area)
     (simp add: calculate_value_score_def median_psqm_def median_floor_area_def median_single
        zero_price_row_def zero_area_row_def fl_sub_def fl_of_sign_def py_max_def py_min_def)

lemma scenario_A_fields:
  "storey_floor scenario_A = 25" "floor_area_sqm scenario_A = 120"
  "remaining_lease_years scenario_A = 90" "price_per_sqm scenario_A = Fin 4000"
  "block scenario_A = ''A''" "resale_price scenario_A = 480000"
  by (simp_all add: scenario_A_def)

lemma scenario_B_fields:
  "storey_floor scenario_B = 5" "floor_area_sqm scenario_B = 60"
  "remaining_lease_years scenario_B = 55" "price_per_sqm scenario_B = Fin 6000"
  "block scenario_B = ''B''"
  by (simp_all add: scenario_B_def)

lemma scenario_median_floor_area: "median_floor_area [scenario_A, scenario_B] = Fin 90"
  by (simp add: median_floor_area_def median_def fl_sort_def scenario_A_fields scenario_B_fields)

lemma scenario_median_psqm: "median_psqm [scenario_A, scenario_B] = Fin 5000"
  by (simp add: median_psqm_def median_def fl_sort_def scenario_A_fields scenario_B_fields)

lemma scenario_score_A: "calculate_value_score [scenario_A, scenario_B] scenario_A = Fin 75"
  by (simp add: calculate_value_score_def scenario_median_floor_area scenario_median_psqm
        fl_sub_def py_min_def py_max_def scenario_A_fields)

lemma scenario_score_B: "calculate_value_score [scenario_A, scenario_B] scenario_B = Fin 22"
  by (simp add: calculate_value_score_def scenario_median_floor_area scenario_median_psqm
        fl_sub_def py_min_def py_max_def scenario_B_fields)

lemma scenario_why_A:
  "explain_score [scenario_A, scenario_B] scenario_A = ''High floor, Spacious, Good value $/sqm''"
  by (simp add: explain_score_def scenario_median_floor_area scenario_median_psqm scenario_A_fields)

lemma scenario_why_B: "explain_score [scenario_A, scenario_B] scenario_B = ''Low remaining lease''"
  by (simp add: explain_score_def scenario_median_floor_area scenario_median_psqm scenario_B_fields)

subsection \<open>The end-to-end scenario\<close>

lemma mset_pair_cases: "mset s = {#a, b#} \<Longrightarrow> s = [a, b] \<or> s = [b, a]"
proof -
  assume h: "mset s = {#a, b#}"
  then have "length s = 2" using size_mset [of s] by simp
  then obtain x y where s: "s = [x, y]"
    by (metis (no_types) Suc_length_conv length_0_conv numeral_2_eq_2)
  with h show ?thesis by (auto simp: add_eq_conv_diff)
qed

lemma potential_score_score_row [simp]:
  "potential_score (score_row filtered r) = calculate_value_score filtered r"
  by (simp add: score_row_def row.defs scored_row.defs)

lemma why_recommended_score_row [simp]:
  "why_recommended (score_row filtered r) = explain_score filtered r"
  by (simp add: score_row_def row.defs scored_row.defs)

lemma block_score_row [simp]: "block (score_row filtered r) = block r"
  by (simp add: score_row_def row.defs scored_row.defs)

text \<open>
  C1. On the table of the two rows A (storey 25, area 120, 4000 per sqm, 90 years of lease) and
  B (storey 5, area 60, 6000 per sqm, 55 years), the median floor area is 90 and the median
  price per sqm is 5000; A scores 75 with the rationale \<open>High floor, Spacious, Good value $/sqm\<close>,
  B scores 22 with the rationale \<open>Low remaining lease\<close>; and whatever order the sort gives to
  ties, its first two rows (and its first twenty) are A, then B.
\<close>

theorem scenario_9:
  "median_floor_area [scenario_A, scenario_B] = Fin 90 \<and>
   median_psqm [scenario_A, scenario_B] = Fin 5000 \<and>
   calculate_value_score [scenario_A, scenario_B] scenario_A = Fin 75 \<and>
   explain_score [scenario_A, scenario_B] scenario_A = ''High floor, Spacious, Good value $/sqm'' \<and>
   calculate_value_score [scenario_A, scenario_B] scenario_B = Fin 22 \<and>
   explain_score [scenario_A, scenario_B] scenario_B = ''Low remaining lease'' \<and>
   sort_values_desc (score_table [scenario_A, scenario_B]) (score_table [scenario_A, scenario_B]) \<and>
   (\<forall>s. sort_values_desc (score_table [scenario_A, scenario_B]) s \<longrightarrow>
        head 2 s = [score_row [scenario_A, scenario_B] scenario_A,
                    score_row [scenario_A, scenario_B] scenario_B] \<and>
        head 20 s = head 2 s)"
proof -
  let ?t = "[scenario_A, scenario_B]"
  let ?a = "score_row ?t scenario_A" and ?b = "score_row ?t scenario_B"
  have tbl: "score_table ?t = [?a, ?b]" by (simp add: score_table_def)
  have ab: "desc_order (potential_score ?a) (potential_score ?b)"
    by (simp add: scenario_score_A scenario_score_B desc_order_def)
  have ba: "\<not> desc_order (potential_score ?b) (potential_score ?a)"
    by (simp add: scenario_score_A scenario_score_B desc_order_def)
  have self: "sort_values_desc (score_table ?t) (score_table ?t)"
    unfolding tbl sort_values_desc_def using ab by simp
  have only: "s = [?a, ?b]" if "sort_values_desc (score_table ?t) s" for s
  proof -
    from that have m: "mset s = {#?a, ?b#}"
      and srt: "sorted_wrt (\<lambda>a b. desc_order (potential_score a) (potential_score b)) s"
      unfolding tbl sort_values_desc_def by simp_all
    from mset_pair_cases [OF m] srt ba show ?thesis by auto
  qed
  have "head 2 s = [?a, ?b] \<and> head 20 s = head 2 s"
    if "sort_values_desc (score_table ?t) s" for s
    using only [OF that] by (simp add: head_def)
  then show ?thesis
    using self
    by (simp add: scenario_median_floor_area scenario_median_psqm scenario_score_A scenario_score_B
          scenario_why_A scenario_why_B)
qed

theorem scenario_9_witness:
  "sort_values_desc (score_table [scenario_A, scenario_B]) (score_table [scenario_A, scenario_B]) \<and>
   head 2 (score_table [scenario_A, scenario_B]) =
     [score_row [scenario_A, scenario_B] scenario_A, score_row [scenario_A, scenario_B] scenario_B] \<and>
   map block (head 20 (score_table [scenario_A, scenario_B])) = [''A'', ''B'']"
proof -
  have "map block [score_row [scenario_A, scenario_B] scenario_A,
                   score_row [scenario_A, scenario_B] scenario_B] = [''A'', ''B'']"
    by (simp add: scenario_A_def scenario_B_def)
  with scenario_9 show ?thesis by metis
qed

subsection \<open>Deductions the rationale does not name\<close>

text \<open>
  C10, as amended. On a table whose median price per sqm is a positive number (not an infinity,
  not NaN), every row with 60 to 79 years of lease, a storey below 10, a floor area not above
  the median and a price per sqm not below the median (an infinite price included) has an
  empty rationale and a score of at most 40: the lease penalty of 10 and the proportional
  price penalty leave no entry in the rationale, so an empty rationale does not mean the
  neutral score of 50.
\<close>

theorem silent_deductions:
  assumes m: "median_psqm filtered = Fin m" and pos: "0 < m"
    and p: "fl_le (median_psqm filtered) (price_per_sqm r)"
    and l1: "60 \<le> remaining_lease_years r" and l2: "remaining_lease_years r < 80"
    and s: "storey_floor r < 10"
    and a: "\<not> fl_less (median_floor_area filtered) (Fin (floor_area_sqm r))"
  shows "explain_score filtered r = [] \<and>
         (\<exists>v. calculate_value_score filtered r = Fin v \<and> 0 \<le> v \<and> v \<le> 40)"
proof -
  from p m have nl: "\<not> fl_less (price_per_sqm r) (Fin m)" by (simp add: fl_le_def)
  have e: "explain_score filtered r = []"
    using m nl l1 s a by (simp add: explain_score_def)
  have base: "calculate_value_score filtered r =
      py_max (py_min (fl_sub (fl_sub (Fin 50)
        (fl_mul (Fin 15) (fl_div (fl_sub (price_per_sqm r) (Fin m)) (Fin m)))) (Fin 10)) (Fin 100)) (Fin 0)"
    using m nl l1 l2 s a by (simp add: calculate_value_score_def)
  from p m consider (fin) x where "price_per_sqm r = Fin x" "m \<le> x" | (inf) "price_per_sqm r = PInf"
    by (cases "price_per_sqm r") (auto simp: fl_le_def)
  then have "\<exists>v. calculate_value_score filtered r = Fin v \<and> 0 \<le> v \<and> v \<le> 40"
  proof cases
    case fin
    define q where "q = 15 * ((x - m) / m)"
    have d: "0 \<le> q" using pos fin(2) by (simp add: q_def)
    have "calculate_value_score filtered r = py_max (py_min (Fin (50 - q - 10)) (Fin 100)) (Fin 0)"
      using pos by (simp add: base fin(1) fl_sub_def q_def)
    then have "calculate_value_score filtered r = Fin (max 0 (min 100 (50 - q - 10)))"
      by (simp only: py_clamp_Fin)
    with d show ?thesis by (simp add: max_def min_def)
  next
    case inf
    have "calculate_value_score filtered r = Fin 0"
      using pos by (simp add: base inf fl_sub_def fl_of_sign_def py_max_def py_min_def)
    then show ?thesis by simp
  qed
  with e show ?thesis by simp
qed

lemma quiet_row_fields:
  "storey_floor quiet_row = 4" "floor_area_sqm quiet_row = 100"
  "remaining_lease_years quiet_row = 70" "price_per_sqm quiet_row = Fin 6000"
  by (simp_all add: quiet_row_def)

lemma quiet_medians:
  "median_psqm [scenario_A, quiet_row] = Fin 5000"
  "median_floor_area [scenario_A, quiet_row] = Fin 110"
  by (simp_all add: median_psqm_def median_floor_area_def median_def fl_sort_def
        scenario_A_fields quiet_row_fields)

theorem silent_deductions_witness:
  "median_psqm [scenario_A, quiet_row] = Fin 5000 \<and> (0::real) < 5000 \<and>
   fl_le (median_psqm [scenario_A, quiet_row]) (price_per_sqm quiet_row) \<and>
   60 \<le> remaining_lease_years quiet_row \<and> remaining_lease_years quiet_row < 80 \<and>
   storey_floor quiet_row < 10 \<and>
   \<not> fl_less (median_floor_area [scenario_A, quiet_row]) (Fin (floor_area_sqm quiet_row)) \<and>
   explain_score [scenario_A, quiet_row] quiet_row = [] \<and>
   (\<exists>v. calculate_value_score [scenario_A, quiet_row] quiet_row = Fin v \<and> 0 \<le> v \<and> v \<le> 40)"
proof -
  have h: "median_psqm [scenario_A, quiet_row] = Fin 5000" "(0::real) < 5000"
    "fl_le (median_psqm [scenario_A, quiet_row]) (price_per_sqm quiet_row)"
    "60 \<le> remaining_lease_years quiet_row" "remaining_lease_years quiet_row < 80"
    "storey_floor quiet_row < 10"
    "\<not> fl_less (median_floor_area [scenario_A, quiet_row]) (Fin (floor_area_sqm quiet_row))"
    by (simp_all add: quiet_medians quiet_row_fields fl_le_def)
  from silent_deductions [OF h] h show ?thesis by blast
qed

lemma refund_fields:
  "storey_floor refund_row_1 = 4" "floor_area_sqm refund_row_1 = 100"
  "remaining_lease_years refund_row_1 = 70" "price_per_sqm refund_row_1 = Fin (- 1000)"
  "floor_area_sqm refund_row_2 = 100" "price_per_sqm refund_row_2 = Fin (- 3000)"
  by (simp_all add: refund_row_1_def refund_row_2_def)

lemma refund_medians:
  "median_psqm [refund_row_1, refund_row_2] = Fin (- 2000)"
  "median_floor_area [refund_row_1, refund_row_2] = Fin 100"
  by (simp_all add: median_psqm_def median_floor_area_def median_def fl_sort_def refund_fields)

lemma zero_area_quiet_fields:
  "storey_floor zero_area_quiet_row = 4" "floor_area_sqm zero_area_quiet_row = 0"
  "remaining_lease_years zero_area_quiet_row = 70" "price_per_sqm zero_area_quiet_row = PInf"
  by (simp_all add: zero_area_quiet_row_def)

lemma zero_area_quiet_medians:
  "median_psqm [zero_area_quiet_row] = PInf"
  "median_floor_area [zero_area_quiet_row] = Fin 0"
  by (simp_all add: median_psqm_def median_floor_area_def median_single zero_area_quiet_fields)

text \<open>
  C10 as stated fails where the median price per sqm is negative: of two transactions recorded
  at -1000 and -3000 per sqm, the first meets every condition of the claim, its rationale is
  empty, and its score is 47.5. It also fails where the median is infinite: the only row of a
  table, with floor area zero and so an infinite price per sqm, meets every condition, its
  rationale is empty, and its score is NaN.
\<close>

theorem silent_deductions_counterexample:
  "median_psqm [refund_row_1, refund_row_2] = Fin (- 2000) \<and>
   fl_le (median_psqm [refund_row_1, refund_row_2]) (price_per_sqm refund_row_1) \<and>
   60 \<le> remaining_lease_years refund_row_1 \<and> remaining_lease_years refund_row_1 < 80 \<and>
   storey_floor refund_row_1 < 10 \<and>
   \<not> fl_less (median_floor_area [refund_row_1, refund_row_2]) (Fin (floor_area_sqm refund_row_1)) \<and>
   explain_score [refund_row_1, refund_row_2] refund_row_1 = [] \<and>
   calculate_value_score [refund_row_1, refund_row_2] refund_row_1 = Fin (95 / 2) \<and>
   median_psqm [zero_area_quiet_row] = PInf \<and>
   fl_le (median_psqm [zero_area_quiet_row]) (price_per_sqm zero_area_quiet_row) \<and>
   60 \<le> remaining_lease_years zero_area_quiet_row \<and>
   remaining_lease_years zero_area_quiet_row < 80 \<and>
   storey_floor zero_area_quiet_row < 10 \<and>
   \<not> fl_less (median_floor_area [zero_area_quiet_row]) (Fin (floor_area_sqm zero_area_quiet_row)) \<and>
   explain_score [zero_area_quiet_row] zero_area_quiet_row = [] \<and>
   calculate_value_score [zero_area_quiet_row] zero_area_quiet_row = NaN"
  by (simp add: calculate_value_score_def explain_score_def refund_medians refund_fields
      zero_area_quiet_medians zero_area_quiet_fields fl_le_def fl_sub_def fl_of_sign_def
      py_max_def py_min_def)

subsection \<open>Ranking\<close>

lemma desc_order_total: "\<not> desc_order a b \<Longrightarrow> desc_order b a"
  by (cases a; cases b) (auto simp: desc_order_def)

lemma desc_order_trans: "desc_order a b \<Longrightarrow> desc_order b c \<Longrightarrow> desc_order a c"
  by (cases a; cases b; cases c) (auto simp: desc_order_def)

lemma desc_order_refl: "desc_order a a"
  by (cases a) (auto simp: desc_order_def)

lemma mset_spec_insert_desc: "mset (spec_insert_desc r xs) = add_mset r (mset xs)"
  by (induction xs) auto

lemma set_spec_insert_desc: "set (spec_insert_desc r xs) = insert r (set xs)"
  by (induction xs) auto

lemma sorted_spec_insert_desc:
  "sorted_wrt (\<lambda>a b. desc_order (potential_score a) (potential_score b)) xs \<Longrightarrow>
   sorted_wrt (\<lambda>a b. desc_order (potential_score a) (potential_score b)) (spec_insert_desc r xs)"
  by (induction xs) (auto simp: set_spec_insert_desc dest: desc_order_total desc_order_trans)

lemma filter_spec_insert_desc:
  "filter (\<lambda>x. potential_score x = k) (spec_insert_desc r xs) =
   filter (\<lambda>x. potential_score x = k) (r # xs)"
  by (induction xs) (auto simp: desc_order_refl)

text \<open>
  Every table has a sorted result: the stable sort of the specification is one of the results
  the call admits, and it keeps rows of equal score in the order of the table.
\<close>

lemma spec_stable_sort_admitted: "sort_values_desc tbl (spec_stable_sort_desc tbl)"
  unfolding sort_values_desc_def spec_stable_sort_desc_def
  by (induction tbl) (simp_all add: mset_spec_insert_desc sorted_spec_insert_desc)

lemma spec_stable_sort_stable:
  "filter (\<lambda>x. potential_score x = k) (spec_stable_sort_desc tbl) =
   filter (\<lambda>x. potential_score x = k) tbl"
  unfolding spec_stable_sort_desc_def
  by (induction tbl) (simp_all add: filter_spec_insert_desc)

text \<open>
  The first 20 rows of any result of the sort: all rows when the table has at most 20,
  otherwise 20 rows; the scores fall along them; together with the rest they are the rows of
  the table; and no row left out would have to stand before a selected one.
\<close>

lemma head_20_of_sorted:
  assumes "sort_values_desc tbl s"
  shows "length (head 20 s) = min 20 (length tbl) \<and>
         (length tbl \<le> 20 \<longrightarrow> mset (head 20 s) = mset tbl) \<and>
         sorted_wrt (\<lambda>a b. desc_order (potential_score a) (potential_score b)) (head 20 s) \<and>
         mset (head 20 s) + mset (drop 20 s) = mset tbl \<and>
         (\<forall>a\<in>set (head 20 s). \<forall>b\<in>set (drop 20 s).
            desc_order (potential_score a) (potential_score b))"
proof -
  let ?P = "\<lambda>a b. desc_order (potential_score a) (potential_score b)"
  from assms have m: "mset s = mset tbl" and srt: "sorted_wrt ?P s"
    by (simp_all add: sort_values_desc_def)
  from m have len: "length s = length tbl" by (rule mset_eq_length)
  have split: "take 20 s @ drop 20 s = s" by simp
  from srt have "sorted_wrt ?P (take 20 s @ drop 20 s)" by simp
  then have parts: "sorted_wrt ?P (take 20 s)"
    "\<forall>a\<in>set (take 20 s). \<forall>b\<in>set (drop 20 s). ?P a b"
    unfolding sorted_wrt_append by simp_all
  have un: "mset (take 20 s) + mset (drop 20 s) = mset tbl"
    using m by (metis split mset_append)
  show ?thesis
    using len m parts un by (simp add: head_def)
qed

subsection \<open>Floor category\<close>

text \<open>
  What \<open>floor_category\<close> gives: from 0 to 9 the label \<open>Low (<10)\<close>, from 10 to 20 the label
  \<open>Mid (10-20)\<close>, from 21 to 100 the label \<open>High (>20)\<close>, and above the last bin edge, 100,
  nothing.
\<close>

lemma floor_category_cases:
  "(0 \<le> s \<and> s \<le> 9 \<longrightarrow> floor_category s = Some ''Low (<10)'') \<and>
   (10 \<le> s \<and> s \<le> 20 \<longrightarrow> floor_category s = Some ''Mid (10-20)'') \<and>
   (20 < s \<and> s \<le> 100 \<longrightarrow> floor_category s = Some ''High (>20)'') \<and>
   (100 < s \<longrightarrow> floor_category s = None)"
  by (simp add: floor_category_def)

text \<open>
  C4. Storey 101 is above 20 and not negative, and it gets none of the three categories,
  although the label of the last bin reads \<open>High (>20)\<close> and the score counts every storey
  above 20 as a high floor.
\<close>

theorem floor_category_above_100:
  "(20::int) < 101 \<and> floor_category 101 = None \<and>
   floor_category 101 \<notin> {Some ''Low (<10)'', Some ''Mid (10-20)'', Some ''High (>20)''}"
  by (simp add: floor_category_def)

subsection \<open>Floor-area bins\<close>

text \<open>
  C7. On the empty table the minimum of the floor-area column is NaN, \<^verbatim>\<open>int(NaN)\<close> raises
  ValueError, and so line 147 raises before any bin is computed: the step is not a no-op.
\<close>

theorem empty_subset_raises:
  "floor_bins ([] :: (real, fl) row list) = Inl ValueError \<and>
   floor_bin_column ([] :: (real, fl) row list) = Inl ValueError"
  by (simp add: floor_bins_def floor_bin_column_def series_min_def)

text \<open>
  C6. On the table with floor areas 60 and 75 the bin edges are 60, 70, 80; the intervals are
  \<open>(60, 70]\<close> and \<open>(70, 80]\<close>, and the row that attains the minimum, 60, gets no bin. On the
  table with floor areas 60 and 80.5 the edges are the same, the last interval ends at 80, and
  neither the row with the minimum nor the row with the maximum gets a bin.
\<close>

theorem minimum_row_unbinned:
  "floor_bins [area_60, area_75] = Inr [60, 70, 80] \<and>
   floor_bin_column [area_60, area_75] = Inr [None, Some (70, 80)] \<and>
   floor_bins [area_60, area_80_5] = Inr [60, 70, 80] \<and>
   floor_bin_column [area_60, area_80_5] = Inr [None, None]"
  by (simp add: floor_bins_def floor_bin_column_def series_min_def series_max_def
        area_60_def area_75_def area_80_5_def py_range_def upt_rec floor_bin_def)

lemma cut_not_above_edges: "\<forall>b\<in>set bins. x \<le> b \<Longrightarrow> cut bins x = None"
  by (induction bins x rule: cut.induct) auto

lemma cut_Some:
  "cut bins x = Some i \<Longrightarrow> Suc i < length bins \<and> bins ! i < x \<and> x \<le> bins ! Suc i"
  by (induction bins x arbitrary: i rule: cut.induct) (auto split: if_splits)

lemma py_range_lower: "b \<in> set (py_range lo hi 10) \<Longrightarrow> lo \<le> b"
  by (auto simp: py_range_def)

lemma floor_bin_at_first_edge: "x \<le> real_of_int lo \<Longrightarrow> floor_bin (py_range lo hi 10) x = None"
proof -
  assume h: "x \<le> real_of_int lo"
  have "\<forall>b\<in>set (map real_of_int (py_range lo hi 10)). x \<le> b"
    using h py_range_lower by fastforce
  then show ?thesis by (simp add: floor_bin_def cut_not_above_edges)
qed

text \<open>
  The same happens on every table whose smallest floor area is a whole number: the first bin
  edge is that number, the first interval is open at it, and the row gets no bin.
\<close>

lemma whole_minimum_unbinned:
  assumes ne: "filtered \<noteq> []"
    and bins: "floor_bins filtered = Inr bins"
    and least: "floor_area_sqm r = Min (set (map floor_area_sqm filtered))"
    and whole: "floor_area_sqm r = real_of_int k" and nonneg: "0 \<le> k"
  shows "floor_bin bins (floor_area_sqm r) = None"
proof -
  from ne least whole have "series_min (map floor_area_sqm filtered) = Fin (real_of_int k)"
    by (simp add: series_min_def)
  with nonneg bins obtain hi where "bins = py_range k hi 10"
    by (auto simp: floor_bins_def split: sum.splits)
  with whole show ?thesis by (simp add: floor_bin_at_first_edge)
qed

subsection \<open>Loader\<close>

lemma convert_column_Inr:
  "convert_column f xs = Inr ys \<Longrightarrow>
   length ys = length xs \<and> (\<forall>i<length xs. f (xs ! i) = Inr (ys ! i))"
proof (induction xs arbitrary: ys)
  case Nil
  then show ?case by simp
next
  case (Cons x xs)
  then show ?case
    by (auto split: sum.splits simp: nth_Cons split: nat.splits)
qed

lemma astype_int_length: "astype_int cells = Inr ns \<Longrightarrow> length ns = length cells"
  by (auto simp: astype_int_def Let_def split: if_splits)

lemma convert_column_map:
  "convert_column f (map u xs) = convert_column (\<lambda>x. f (u x)) xs"
  by (induction xs) (simp_all split: sum.splits)

text \<open>Whether the loader raises, and what it raises, does not depend on the floor areas.\<close>

lemma load_data_ignores_floor_area:
  "(load_data to_datetime (map (raw_floor_area_sqm_update g) df) = Inl e) =
   (load_data to_datetime df = Inl e)"
  by (simp add: load_data_def convert_column_map comp_def split: sum.splits)

text \<open>
  C8, as amended. The loader does not validate \<open>floor_area_sqm\<close>. When it returns a table, the
  table has one record for every line of the source, in order, with the line's floor area and
  price, whatever the floor area is; \<open>price_per_sqm\<close> is the quotient of price and floor area as
  the float division gives it, which is \<open>resale_price / floor_area_sqm\<close> whenever the floor area
  is not zero (and an infinity or NaN, without an exception, when it is).
\<close>

theorem loader_keeps_every_record:
  assumes "load_data to_datetime df = Inr rows"
  shows "length rows = length df \<and>
         (\<forall>i<length df.
            floor_area_sqm (rows ! i) = raw_floor_area_sqm (df ! i) \<and>
            resale_price (rows ! i) = raw_resale_price (df ! i) \<and>
            price_per_sqm (rows ! i) =
              fl_div (Fin (raw_resale_price (df ! i))) (Fin (raw_floor_area_sqm (df ! i))) \<and>
            (raw_floor_area_sqm (df ! i) \<noteq> 0 \<longrightarrow>
               price_per_sqm (rows ! i) =
                 Fin (raw_resale_price (df ! i) / raw_floor_area_sqm (df ! i))))"
proof -
  from assms obtain months leases storeys where
    c: "convert_column
          (\<lambda>r. case to_datetime (raw_month r) of None \<Rightarrow> Inl DateParseError | Some d \<Rightarrow> Inr d) df
        = Inr months"
       "astype_int (map (\<lambda>r. str_extract_digits (raw_remaining_lease r)) df) = Inr leases"
       "astype_int (map (\<lambda>r. str_extract_digits (raw_storey_range r)) df) = Inr storeys"
    and rows: "rows = map (\<lambda>(r, m, l, s).
                 \<lparr>month = m, block = raw_block r, storey_floor = s,
                  floor_area_sqm = raw_floor_area_sqm r, remaining_lease_years = l,
                  resale_price = raw_resale_price r,
                  price_per_sqm = fl_div (Fin (raw_resale_price r)) (Fin (raw_floor_area_sqm r))\<rparr>)
               (zip df (zip months (zip leases storeys)))"
    by (auto simp: load_data_def split: sum.splits)
  from c have "length months = length df" "length leases = length df" "length storeys = length df"
    using convert_column_Inr astype_int_length by fastforce+
  then show ?thesis
    by (simp add: rows)
qed

theorem loader_keeps_every_record_witness:
  "load_data january_2017 [zero_area_raw] =
     Inr [\<lparr>month = (2017, 1, 1), block = ''301'', storey_floor = 10, floor_area_sqm = 0,
           remaining_lease_years = 61, resale_price = 300000, price_per_sqm = PInf\<rparr>] \<and>
   length [\<lparr>month = (2017, 1, 1), block = ''301'', storey_floor = 10, floor_area_sqm = 0,
           remaining_lease_years = 61, resale_price = (300000::real), price_per_sqm = PInf\<rparr>] =
     length [zero_area_raw]"
  using loader_keeps_every_record [OF load_zero_area] load_zero_area
  by (simp add: zero_area_row_def)

text \<open>
  C8 as stated fails on a source line whose floor area is zero: the loader returns a table
  that holds the record, with floor area 0 and an infinite \<open>price_per_sqm\<close>.
\<close>

theorem loader_counterexample:
  "load_data january_2017 [zero_area_raw] =
     Inr [\<lparr>month = (2017, 1, 1), block = ''301'', storey_floor = 10, floor_area_sqm = 0,
           remaining_lease_years = 61, resale_price = 300000, price_per_sqm = PInf\<rparr>] \<and>
   raw_floor_area_sqm zero_area_raw = 0"
  by (simp add: load_data_def zero_area_raw_def january_2017_def astype_int_def
        str_extract_digits_def is_digit_def int_of_digits_def fl_of_sign_def)

subsection \<open>Price formatting\<close>

text \<open>
  Rounding to the nearest integer, a tie to the even one; the binary exponent; and the
  rounding of a quotient to the nearest double: the result is within half a unit of the last
  bit, and in the range of the normal doubles its significand has 53 bits.
\<close>

lemma round_half_even_nearest:
  "\<bar>x - of_int (round_half_even x)\<bar> \<le> 1 / 2 \<and>
   (\<bar>x - of_int (round_half_even x)\<bar> = 1 / 2 \<longrightarrow> even (round_half_even x))"
  unfolding round_half_even_def Let_def by (auto simp: abs_if) linarith+

lemma round_half_even_nonneg: "0 \<le> x \<Longrightarrow> 0 \<le> round_half_even x"
  unfolding round_half_even_def Let_def by auto

lemma to_float64_error: "\<bar>x - to_float64 x\<bar> \<le> 2 powi (ulp_exponent x - 1)"
proof (cases "x = 0")
  case True
  then show ?thesis by (simp add: to_float64_def)
next
  case False
  define u :: real where "u = 2 powi ulp_exponent x"
  define m where "m = round_half_even (x / u)"
  have u: "0 < u" by (simp add: u_def)
  have "\<bar>x / u - of_int m\<bar> \<le> 1 / 2"
    unfolding m_def using round_half_even_nearest by blast
  then have "u * \<bar>x / u - of_int m\<bar> \<le> u * (1 / 2)"
    using u by (intro mult_left_mono) simp_all
  moreover have "u * \<bar>x / u - of_int m\<bar> = \<bar>x - of_int m * u\<bar>"
  proof -
    have "u * \<bar>x / u - of_int m\<bar> = \<bar>u * (x / u - of_int m)\<bar>"
      using u by (simp add: abs_mult)
    also have "u * (x / u - of_int m) = x - of_int m * u"
      using u by (simp add: field_simps)
    finally show ?thesis .
  qed
  moreover have "u * (1 / 2) = 2 powi (ulp_exponent x - 1)"
    by (simp add: u_def power_int_diff)
  moreover have "to_float64 x = of_int m * u"
    using False by (simp add: to_float64_def m_def u_def)
  ultimately show ?thesis by simp
qed


lemma ilog2_bounds:
  assumes "0 < x"
  shows "2 powi ilog2 x \<le> x \<and> x < 2 powi (ilog2 x + 1)"
proof (cases "1 \<le> x")
  case True
  define n where "n = \<lfloor>x\<rfloor>"
  have n: "0 < n" using True by (simp add: n_def)
  have "0 < bitlen n" using n bitlen_eq_zero_iff [of n] bitlen_nonneg [of n] by linarith
  then obtain j where k: "bitlen n = int (Suc j)"
    by (metis Suc_pred' nat_0_iff not_less zero_less_nat_eq int_nat_eq less_imp_le)
  have nj: "nat (int (Suc j) - 1) = j" "nat (int (Suc j)) = Suc j" by simp_all
  from bitlen_bounds [OF n] have b: "2 ^ j \<le> n" "n < 2 ^ Suc j"
    unfolding k nj by blast+
  have e: "ilog2 x = int j"
    using True by (simp add: ilog2_def n_def [symmetric] k)
  have lo: "(2::real) ^ j \<le> x"
  proof -
    have "(2::real) ^ j \<le> of_int n"
      using b(1) by (metis of_int_le_iff of_int_numeral of_int_power)
    also have "\<dots> \<le> x" by (simp add: n_def)
    finally show ?thesis .
  qed
  have hi: "x < (2::real) ^ Suc j"
  proof -
    have "n + 1 \<le> 2 ^ Suc j" using b(2) by simp
    then have "of_int (n + 1) \<le> (2::real) ^ Suc j"
      by (metis of_int_le_iff of_int_numeral of_int_power)
    moreover have "x < of_int (n + 1)" by (simp add: n_def)
    ultimately show ?thesis by linarith
  qed
  have "int j + 1 = int (Suc j)" by simp
  then show ?thesis using lo hi unfolding e by (simp only: power_int_of_nat)
next
  case False
  define y where "y = 1 / x"
  have y: "1 < y" using assms False by (simp add: y_def)
  define c where "c = \<lceil>y\<rceil>"
  have c: "0 < c - 1" using y by (simp add: c_def)
  have "0 < bitlen (c - 1)"
    using c bitlen_eq_zero_iff [of "c - 1"] bitlen_nonneg [of "c - 1"] by linarith
  then obtain j where k: "bitlen (c - 1) = int (Suc j)"
    by (metis Suc_pred' nat_0_iff not_less zero_less_nat_eq int_nat_eq less_imp_le)
  have nj: "nat (int (Suc j) - 1) = j" "nat (int (Suc j)) = Suc j" by simp_all
  from bitlen_bounds [OF c] have b: "2 ^ j \<le> c - 1" "c - 1 < 2 ^ Suc j"
    unfolding k nj by blast+
  have e: "ilog2 x = - int (Suc j)"
    using False by (simp add: ilog2_def y_def [symmetric] c_def [symmetric] k)
  have hi: "y \<le> (2::real) ^ Suc j"
  proof -
    have "c \<le> 2 ^ Suc j" using b(2) by simp
    then have "of_int c \<le> (2::real) ^ Suc j"
      by (metis of_int_le_iff of_int_numeral of_int_power)
    moreover have "y \<le> of_int c" by (simp add: c_def)
    ultimately show ?thesis by linarith
  qed
  have lo: "(2::real) ^ j < y"
  proof -
    have "(2::real) ^ j \<le> of_int (c - 1)"
      using b(1) by (metis of_int_le_iff of_int_numeral of_int_power)
    moreover have "of_int (c - 1) < y" by (simp add: c_def) linarith
    ultimately show ?thesis by linarith
  qed
  have x: "x = 1 / y" using assms by (simp add: y_def)
  have p1: "1 / (2::real) ^ Suc j \<le> x"
    unfolding x using hi y by (intro frac_le) simp_all
  have p2: "x < 1 / (2::real) ^ j"
    unfolding x using lo by (intro frac_less2) simp_all
  have a1: "(2::real) powi (- int (Suc j)) = 1 / 2 ^ Suc j"
    by (simp only: power_int_minus power_int_of_nat inverse_eq_divide)
  have a2: "(2::real) powi (- int (Suc j) + 1) = 1 / 2 ^ j"
  proof -
    have "- int (Suc j) + 1 = - int j" by simp
    then show ?thesis by (simp only: power_int_minus power_int_of_nat inverse_eq_divide)
  qed
  show ?thesis unfolding e a1 a2 using p1 p2 by simp
qed

lemma to_float64_significand:
  assumes "2 powi (- 1022) \<le> \<bar>x\<bar>"
  shows "ulp_exponent x = ilog2 \<bar>x\<bar> - 52 \<and>
         2 ^ 52 \<le> \<bar>round_half_even (x / 2 powi ulp_exponent x)\<bar> \<and>
         \<bar>round_half_even (x / 2 powi ulp_exponent x)\<bar> \<le> 2 ^ 53"
proof -
  have pos: "0 < \<bar>x\<bar>"
  proof -
    have "(0::real) < 2 powi (- 1022)" by simp
    with assms show ?thesis by linarith
  qed
  note b = ilog2_bounds [OF pos]
  have e: "- 1022 \<le> ilog2 \<bar>x\<bar>"
  proof (rule ccontr)
    assume "\<not> - 1022 \<le> ilog2 \<bar>x\<bar>"
    then have "ilog2 \<bar>x\<bar> + 1 \<le> - 1022" by simp
    then have "(2::real) powi (ilog2 \<bar>x\<bar> + 1) \<le> 2 powi (- 1022)"
      by (intro power_int_increasing) simp_all
    with b assms show False by linarith
  qed
  then have t: "ulp_exponent x = ilog2 \<bar>x\<bar> - 52" by (simp add: ulp_exponent_def)
  define u :: real where "u = 2 powi (ilog2 \<bar>x\<bar> - 52)"
  define m where "m = round_half_even (x / u)"
  have u: "0 < u" by (simp add: u_def)
  have s1: "2 powi ilog2 \<bar>x\<bar> = 2 ^ 52 * u"
    by (simp add: u_def power_int_diff)
  have s2: "2 powi (ilog2 \<bar>x\<bar> + 1) = 2 ^ 53 * u"
    by (simp add: u_def power_int_diff power_int_add)
  from b have "2 ^ 52 * u \<le> \<bar>x\<bar>" "\<bar>x\<bar> < 2 ^ 53 * u" unfolding s1 s2 by simp_all
  then have q: "2 ^ 52 \<le> \<bar>x / u\<bar>" "\<bar>x / u\<bar> < 2 ^ 53"
    using u by (simp_all add: field_simps)
  have near: "\<bar>x / u - of_int m\<bar> \<le> 1 / 2"
    unfolding m_def using round_half_even_nearest by blast
  have "\<bar>\<bar>x / u\<bar> - \<bar>real_of_int m\<bar>\<bar> \<le> 1 / 2"
    using near by linarith
  with q have "2 ^ 52 - 1 / 2 \<le> \<bar>real_of_int m\<bar>" "\<bar>real_of_int m\<bar> < 2 ^ 53 + 1 / 2"
    by linarith+
  then have "2 ^ 52 - 1 / 2 \<le> real_of_int \<bar>m\<bar>" "real_of_int \<bar>m\<bar> < 2 ^ 53 + 1 / 2"
    by simp_all
  then have "real_of_int (2 ^ 52 - 1) < real_of_int \<bar>m\<bar>"
    "real_of_int \<bar>m\<bar> < real_of_int (2 ^ 53 + 1)"
    by simp_all
  then have "2 ^ 52 - 1 < \<bar>m\<bar>" "\<bar>m\<bar> < 2 ^ 53 + 1"
    by (simp_all only: of_int_less_iff)
  then have "2 ^ 52 \<le> \<bar>m\<bar>" "\<bar>m\<bar> \<le> 2 ^ 53"
    by simp_all
  then show ?thesis unfolding t m_def u_def by simp
qed

lemma to_float64_nonneg: "0 \<le> x \<Longrightarrow> 0 \<le> to_float64 x"
proof -
  assume x: "0 \<le> x"
  have "0 \<le> x / 2 powi ulp_exponent x" using x by simp
  then have "0 \<le> round_half_even (x / 2 powi ulp_exponent x)" by (rule round_half_even_nonneg)
  then show ?thesis unfolding to_float64_def by simp
qed



lemma frac_digits_2: "frac_digits 2 m = [digit_char (m div 10 mod 10), digit_char (m mod 10)]"
  by (simp add: numeral_2_eq_2)

lemma format_price_examples:
  "format_price 1000000 = ''$1.00M''"
  "format_price 1230000 = ''$1.23M''"
  "format_price 456000 = ''$456k''"
  "format_price 1015000 = ''$1.01M''"
  "format_price 2675000 = ''$2.67M''"
  "format_price 1145000 = ''$1.15M''"
  "format_price 1125000 = ''$1.12M''"
  "format_price 1375000 = ''$1.38M''"
  "format_price 456500 = ''$456k''"
  "format_price 457500 = ''$458k''"
  "format_price 999999 = ''$1000k''"
  by code_simp+

lemma two_digits:
  "(n::nat) mod 100 div 10 mod 10 = n div 10 mod 10" "n mod 100 mod 10 = n mod 10"
proof -
  have "n mod 100 = 10 * (n div 10 mod 10) + n mod 10"
    using mod_mult2_eq [of n 10 10] by simp
  then show "n mod 100 div 10 mod 10 = n div 10 mod 10" by simp
  show "n mod 100 mod 10 = n mod 10" by (simp add: mod_mod_cancel)
qed

lemma format_millions:
  assumes v: "1000000 \<le> v"
  shows "format_price v =
         ''$'' @ show_nat (nat (round_half_even (to_float64 (v / 1000000) * 100)) div 100) @ ''.'' @
           [digit_char (nat (round_half_even (to_float64 (v / 1000000) * 100)) div 10 mod 10),
            digit_char (nat (round_half_even (to_float64 (v / 1000000) * 100)) mod 10)] @ ''M''"
proof -
  define q where "q = to_float64 (v / 1000000)"
  define n where "n = nat (round_half_even (q * 100))"
  have q: "0 \<le> q" unfolding q_def using v by (intro to_float64_nonneg) simp
  have "format_price v = ''$'' @ format_f 2 q @ ''M''"
    using v by (simp add: format_price_def q_def)
  also have "format_f 2 q = show_nat (n div 100) @ ''.'' @ frac_digits 2 (n mod 100)"
    using q by (simp add: format_f_def Let_def n_def)
  finally show ?thesis unfolding frac_digits_2 two_digits n_def q_def by simp
qed

lemma nat_round_half_even:
  assumes "0 \<le> y"
  shows "\<bar>y - real (nat (round_half_even y))\<bar> \<le> 1 / 2 \<and>
         (\<bar>y - real (nat (round_half_even y))\<bar> = 1 / 2 \<longrightarrow> even (nat (round_half_even y)))"
proof -
  have "0 \<le> round_half_even y" using assms by (rule round_half_even_nonneg)
  then have "real (nat (round_half_even y)) = of_int (round_half_even y)"
    "even (nat (round_half_even y)) = even (round_half_even y)"
    by (simp_all add: even_nat_iff)
  then show ?thesis using round_half_even_nearest [of y] by simp
qed

lemma format_thousands:
  assumes v: "v < 1000000"
  shows "format_price v =
        ''$'' @ (if to_float64 (v / 1000) < 0 then ''-'' else []) @
          show_nat (nat (round_half_even \<bar>to_float64 (v / 1000)\<bar>)) @ ''k''"
  using v by (simp add: format_price_def format_f_def Let_def)


lemma top20_rows:
  "length (top20 s) = length (head 20 s) \<and>
   (\<forall>i<length (head 20 s).
      resale_price (top20 s ! i) = format_price (resale_price (head 20 s ! i)) \<and>
      month (top20 s ! i) = month (head 20 s ! i) \<and>
      block (top20 s ! i) = block (head 20 s ! i) \<and>
      storey_floor (top20 s ! i) = storey_floor (head 20 s ! i) \<and>
      floor_area_sqm (top20 s ! i) = floor_area_sqm (head 20 s ! i) \<and>
      remaining_lease_years (top20 s ! i) = remaining_lease_years (head 20 s ! i) \<and>
      price_per_sqm (top20 s ! i) = price_per_sqm (head 20 s ! i) \<and>
      potential_score (top20 s ! i) = potential_score (head 20 s ! i) \<and>
      why_recommended (top20 s ! i) = why_recommended (head 20 s ! i))"
  by (simp add: top20_def format_row_def)

text \<open>
  C9. A value of at least 1,000,000 is shown in millions with two decimals, any smaller value
  in thousands with no decimals. Both follow one rule: the quotient is the double nearest to
  the exact quotient, and the number printed is the decimal nearest to that double, a tie
  going to the even last digit. 1,000,000 gives \<open>$1.00M\<close>, 1,230,000 gives \<open>$1.23M\<close>, 456,000
  gives \<open>$456k\<close>; 1,015,000 gives \<open>$1.01M\<close> (the double nearest to 1.015 lies below it), and the
  exact ties 1.125, 1.375, 456.5 and 457.5 go to 1.12, 1.38, 456 and 458. The strings are
  written into the rows the ranking has already selected and ordered: row by row, \<open>top20\<close> is
  \<open>head 20\<close> of the sorted table with only the price column replaced, in the same order.
\<close>

theorem format_price_rule:
  "(1000000 \<le> v \<longrightarrow>
      (let q = to_float64 (v / 1000000); n = nat (round_half_even (q * 100)) in
         format_price v =
           ''$'' @ show_nat (n div 100) @ ''.'' @
             [digit_char (n div 10 mod 10), digit_char (n mod 10)] @ ''M'' \<and>
         \<bar>q * 100 - real n\<bar> \<le> 1 / 2 \<and> (\<bar>q * 100 - real n\<bar> = 1 / 2 \<longrightarrow> even n) \<and>
         \<bar>v / 1000000 - q\<bar> \<le> 2 powi (ulp_exponent (v / 1000000) - 1))) \<and>
   (v < 1000000 \<longrightarrow>
      (let q = to_float64 (v / 1000); n = nat (round_half_even \<bar>q\<bar>) in
         format_price v = ''$'' @ (if q < 0 then ''-'' else []) @ show_nat n @ ''k'' \<and>
         \<bar>\<bar>q\<bar> - real n\<bar> \<le> 1 / 2 \<and> (\<bar>\<bar>q\<bar> - real n\<bar> = 1 / 2 \<longrightarrow> even n) \<and>
         \<bar>v / 1000 - q\<bar> \<le> 2 powi (ulp_exponent (v / 1000) - 1))) \<and>
   format_price 1000000 = ''$1.00M'' \<and> format_price 1230000 = ''$1.23M'' \<and>
   format_price 456000 = ''$456k'' \<and>
   format_price 1015000 = ''$1.01M'' \<and> format_price 1125000 = ''$1.12M'' \<and>
   format_price 1375000 = ''$1.38M'' \<and> format_price 456500 = ''$456k'' \<and>
   format_price 457500 = ''$458k'' \<and> format_price 999999 = ''$1000k'' \<and>
   length (top20 s) = length (head 20 s) \<and>
   (\<forall>i<length (head 20 s).
      resale_price (top20 s ! i) = format_price (resale_price (head 20 s ! i)) \<and>
      month (top20 s ! i) = month (head 20 s ! i) \<and>
      block (top20 s ! i) = block (head 20 s ! i) \<and>
      storey_floor (top20 s ! i) = storey_floor (head 20 s ! i) \<and>
      floor_area_sqm (top20 s ! i) = floor_area_sqm (head 20 s ! i) \<and>
      remaining_lease_years (top20 s ! i) = remaining_lease_years (head 20 s ! i) \<and>
      price_per_sqm (top20 s ! i) = price_per_sqm (head 20 s ! i) \<and>
      potential_score (top20 s ! i) = potential_score (head 20 s ! i) \<and>
      why_recommended (top20 s ! i) = why_recommended (head 20 s ! i))"
  (is "?M \<and> ?K \<and> ?E \<and> ?R")
proof (intro conjI)
  show ?M
  proof
    assume v: "1000000 \<le> v"
    have "0 \<le> to_float64 (v / 1000000) * 100"
      using v to_float64_nonneg [of "v / 1000000"] by simp
    from nat_round_half_even [OF this] format_millions [OF v] to_float64_error [of "v / 1000000"]
    show "let q = to_float64 (v / 1000000); n = nat (round_half_even (q * 100)) in
         format_price v =
           ''$'' @ show_nat (n div 100) @ ''.'' @
             [digit_char (n div 10 mod 10), digit_char (n mod 10)] @ ''M'' \<and>
         \<bar>q * 100 - real n\<bar> \<le> 1 / 2 \<and> (\<bar>q * 100 - real n\<bar> = 1 / 2 \<longrightarrow> even n) \<and>
         \<bar>v / 1000000 - q\<bar> \<le> 2 powi (ulp_exponent (v / 1000000) - 1)"
      unfolding Let_def by blast
  qed
  show ?K
  proof
    assume v: "v < 1000000"
    have "0 \<le> \<bar>to_float64 (v / 1000)\<bar>" by simp
    from nat_round_half_even [OF this] format_thousands [OF v] to_float64_error [of "v / 1000"]
    show "let q = to_float64 (v / 1000); n = nat (round_half_even \<bar>q\<bar>) in
         format_price v = ''$'' @ (if q < 0 then ''-'' else []) @ show_nat n @ ''k'' \<and>
         \<bar>\<bar>q\<bar> - real n\<bar> \<le> 1 / 2 \<and> (\<bar>\<bar>q\<bar> - real n\<bar> = 1 / 2 \<longrightarrow> even n) \<and>
         \<bar>v / 1000 - q\<bar> \<le> 2 powi (ulp_exponent (v / 1000) - 1)"
      unfolding Let_def by blast
  qed
qed (insert format_price_examples top20_rows [of s], blast+)


lemma resale_price_score_row [simp]: "resale_price (score_row filtered r) = resale_price r"
  by (simp add: score_row_def row.defs scored_row.defs)

lemma format_price_480k: "format_price 480000 = ''$480k''"
  by code_simp

lemma witness_quotients:
  "to_float64 (5 / 2) = 5 / 2"
  "round_half_even 250 = 250"
  "to_float64 (247 / 2) = 247 / 2"
  "round_half_even (247 / 2) = 124"
  "show_nat 2 = ''2''" "show_nat 124 = ''124''"
  "digit_char 5 = CHR ''5''" "digit_char 0 = CHR ''0''"
  by code_simp+

theorem format_price_rule_witness:
  "(1000000::real) \<le> 2500000 \<and> format_price 2500000 = ''$2.50M'' \<and>
   (123500::real) < 1000000 \<and> format_price 123500 = ''$124k'' \<and>
   0 < length (head 20 (score_table [scenario_A, scenario_B])) \<and>
   resale_price (top20 (score_table [scenario_A, scenario_B]) ! 0) = ''$480k'' \<and>
   block (top20 (score_table [scenario_A, scenario_B]) ! 0) = ''A''"
proof -
  have m: "format_price 2500000 = ''$2.50M''"
    using format_price_rule [of 2500000 "[] :: (real, fl) scored_row list"]
    by (simp add: witness_quotients Let_def)
  have k: "format_price 123500 = ''$124k''"
    using format_price_rule [of 123500 "[] :: (real, fl) scored_row list"]
    by (simp add: witness_quotients Let_def)
  have h: "head 20 (score_table [scenario_A, scenario_B]) =
           [score_row [scenario_A, scenario_B] scenario_A, score_row [scenario_A, scenario_B] scenario_B]"
    by (simp add: head_def score_table_def)
  have p: "resale_price scenario_A = 480000" "block scenario_A = ''A''"
    by (simp_all add: scenario_A_def)
  have t: "resale_price (top20 (score_table [scenario_A, scenario_B]) ! 0) = ''$480k'' \<and>
           block (top20 (score_table [scenario_A, scenario_B]) ! 0) = ''A''"
    using format_price_rule [of 0 "score_table [scenario_A, scenario_B]"]
    by (simp add: h p format_price_480k)
  from m k t h show ?thesis by simp
qed

end
